theory Spec2Isabelle
  imports Complex_Main
begin

section \<open>The simulation model (src/app.py, lines 15-42)\<close>

text \<open>
  The model works on Python ints (the five parameters, the offsets and the years) and on
  floats. Ints are \<open>int\<close>. Floats are idealised as \<open>real\<close>: \<open>np.log\<close> is \<open>ln\<close>,
  \<open>np.exp\<close> is \<open>exp\<close>, \<open>/\<close> is real division, and rounding is not modelled. Where
  numpy would produce \<open>nan\<close> or \<open>inf\<close> (\<open>co2_ppm \<le> 0\<close>, \<open>rainfall_change_pct = -100\<close>)
  the real-valued model says nothing that carries over to the program; every theorem
  about the model therefore assumes the slider domain of lines 186-198.

  A data frame is the list of its rows, in index order.
\<close>

record row =
  year :: int
  temp_anomaly_C :: real
  flood_risk :: real
  drought_risk :: real

type_synonym dataframe = "row list"

text \<open>\<open>pd.DataFrame\<close> of four columns of the same length (lines 34-41).\<close>

definition DataFrame :: "int list \<Rightarrow> real list \<Rightarrow> real list \<Rightarrow> real list \<Rightarrow> dataframe" where
  "DataFrame ys ts fs ds =
     map (\<lambda>(y, t, f, d). \<lparr>year = y, temp_anomaly_C = t, flood_risk = f, drought_risk = d\<rparr>)
         (zip ys (zip ts (zip fs ds)))"

text \<open>
  \<open>np.arange(years + 1)\<close> for an int argument is \<open>0, 1, ..., years\<close>, and empty when
  \<open>years + 1 \<le> 0\<close>: the list \<open>[0..years]\<close>. The vectorised operations of lines 19-32
  are maps over that vector.
\<close>

definition simulate :: "int \<Rightarrow> int \<Rightarrow> int \<Rightarrow> int \<Rightarrow> int \<Rightarrow> dataframe" where
  "simulate years co2_ppm rainfall_change_pct green_infra_pct urbanization_pct =
     (let t = [0..years];
          temp_anom = 1.2 * ln (real_of_int co2_ppm / 280);
          temp_series = map (\<lambda>ti. temp_anom * (1 - exp (real_of_int (- ti) / 25))) t;
          rainfall_factor = 1 + real_of_int rainfall_change_pct / 100.0;
          impervious = real_of_int urbanization_pct / 100.0;
          green = real_of_int green_infra_pct / 100.0;
          runoff_index = (rainfall_factor * (0.6 + 1.2 * impervious) * (1 - 0.55 * green));
          runoff_series = map (\<lambda>x. runoff_index * (1 + 0.08 * x)) temp_series;
          flood_risk = map (\<lambda>x. 100 * (1 - exp (- 0.9 * x))) runoff_series;
          evap = map (\<lambda>x. 1 + 0.18 * x) temp_series;
          drought_index = map (\<lambda>e. (e / rainfall_factor) * (1 - 0.15 * green)) evap;
          drought_risk = map (\<lambda>x. 100 * (1 - exp (- 0.8 * x))) drought_index
      in DataFrame (map (\<lambda>ti. 2025 + ti) t) temp_series flood_risk drought_risk)"

text \<open>The domain of the five sliders (lines 186-188 and 192-198).\<close>

definition in_domain :: "int \<Rightarrow> int \<Rightarrow> int \<Rightarrow> int \<Rightarrow> int \<Rightarrow> bool" where
  "in_domain years co2_ppm rainfall_change_pct green_infra_pct urbanization_pct \<longleftrightarrow>
     20 \<le> years \<and> years \<le> 120 \<and>
     280 \<le> co2_ppm \<and> co2_ppm \<le> 900 \<and>
     - 30 \<le> rainfall_change_pct \<and> rainfall_change_pct \<le> 50 \<and>
     0 \<le> green_infra_pct \<and> green_infra_pct \<le> 100 \<and>
     0 \<le> urbanization_pct \<and> urbanization_pct \<le> 100"

text \<open>
  The closed forms of the specification (section 4.1, steps 2-10), written from its
  sentences and kept apart from \<open>simulate\<close>, with which they are compared below.
\<close>

definition spec_tempSeries :: "int \<Rightarrow> int \<Rightarrow> real" where
  "spec_tempSeries co2Ppm i =
     1.2 * ln (real_of_int co2Ppm / 280) * (1 - exp (- real_of_int i / 25))"

definition spec_runoffIndex :: "int \<Rightarrow> int \<Rightarrow> int \<Rightarrow> real" where
  "spec_runoffIndex rainfallChangePct greenInfraPct urbanizationPct =
     (1 + real_of_int rainfallChangePct / 100)
       * (0.6 + 1.2 * real_of_int urbanizationPct / 100)
       * (1 - 0.55 * real_of_int greenInfraPct / 100)"

definition spec_floodRisk :: "int \<Rightarrow> int \<Rightarrow> int \<Rightarrow> int \<Rightarrow> int \<Rightarrow> real" where
  "spec_floodRisk co2Ppm rainfallChangePct greenInfraPct urbanizationPct i =
     100 * (1 - exp (- 0.9 * spec_runoffIndex rainfallChangePct greenInfraPct urbanizationPct
                       * (1 + 0.08 * spec_tempSeries co2Ppm i)))"

definition spec_droughtRisk :: "int \<Rightarrow> int \<Rightarrow> int \<Rightarrow> int \<Rightarrow> real" where
  "spec_droughtRisk co2Ppm rainfallChangePct greenInfraPct i =
     100 * (1 - exp (- 0.8 * ((1 + 0.18 * spec_tempSeries co2Ppm i)
                               / (1 + real_of_int rainfallChangePct / 100))
                       * (1 - 0.15 * real_of_int greenInfraPct / 100)))"

section \<open>Session state (src/app.py, lines 48-87)\<close>

text \<open>
  \<open>st.session_state\<close> is a dictionary with the twelve keys of \<open>DEFAULTS\<close>. The loop of
  lines 72-74 seeds every missing key at the top of each run, so from line 75 on every
  key is present: the state is a record of the twelve values. The six keys that
  \<open>snapshot_current\<close> copies form the record \<open>parameters\<close>, which the session state
  extends. How the framework stores widget values between runs is not modelled: a
  widget change is a different state at the start of the next run.
\<close>

datatype mode_choice = Standard | Kids

datatype difficulty = Easy | Medium | Hard

record parameters =
  mode :: mode_choice
  years :: int
  co2_ppm :: int
  rainfall_change_pct :: int
  green_infra_pct :: int
  urbanization_pct :: int

record snapshot =
  params :: parameters
  df :: dataframe

record session_state = parameters +
  challenge_on :: bool
  challenge_won :: bool
  difficulty_choice :: difficulty
  compare_on :: bool
  scenario_A :: "snapshot option"
  scenario_B :: "snapshot option"

definition DEFAULTS :: session_state where
  "DEFAULTS =
     \<lparr>mode = Standard,
      years = 80,
      co2_ppm = 450,
      rainfall_change_pct = 10,
      green_infra_pct = 20,
      urbanization_pct = 40,
      challenge_on = False,
      challenge_won = False,
      difficulty_choice = Medium,
      compare_on = False,
      scenario_A = None,
      scenario_B = None\<rparr>"

text \<open>\<open>DIFFICULTY_TARGETS\<close> (lines 66-70), as the pair \<open>(target_flood, target_drought)\<close>.\<close>

fun DIFFICULTY_TARGETS :: "difficulty \<Rightarrow> int \<times> int" where
  "DIFFICULTY_TARGETS Easy = (55, 55)"
| "DIFFICULTY_TARGETS Medium = (40, 40)"
| "DIFFICULTY_TARGETS Hard = (30, 30)"

text \<open>\<open>snapshot_current\<close> (lines 77-87); \<open>int(...)\<close> of an int and \<open>df.copy()\<close> are identities here.\<close>

definition snapshot_current :: "session_state \<Rightarrow> dataframe \<Rightarrow> snapshot" where
  "snapshot_current s d =
     \<lparr>params = \<lparr>mode = mode s,
                 years = years s,
                 co2_ppm = co2_ppm s,
                 rainfall_change_pct = rainfall_change_pct s,
                 green_infra_pct = green_infra_pct s,
                 urbanization_pct = urbanization_pct s\<rparr>,
      df = d\<rparr>"

section \<open>The blocks of the script (src/app.py, lines 108-380)\<close>

text \<open>
  The script runs top to bottom once per interaction. A button returns \<open>True\<close> only in
  the run its click starts; \<open>st.rerun()\<close> abandons the run and starts the next one from
  the state written so far. Each block is a function on the session state.
\<close>

datatype button =
  No_button | Btn_Reset | Btn_Business | Btn_Green | Btn_Urban | Btn_Reset_challenge
  | Btn_Save_A | Btn_Save_B | Btn_Clear

datatype py_error = IndexError

datatype effect = Success string | Error string | Balloons

text \<open>
  Reset to Default (lines 112-133): the twelve keys are popped, then every key of
  \<open>DEFAULTS\<close> is assigned its default.
\<close>

definition reset_to_default :: "session_state \<Rightarrow> session_state" where
  "reset_to_default s =
     s\<lparr>mode := mode DEFAULTS,
       years := years DEFAULTS,
       co2_ppm := co2_ppm DEFAULTS,
       rainfall_change_pct := rainfall_change_pct DEFAULTS,
       green_infra_pct := green_infra_pct DEFAULTS,
       urbanization_pct := urbanization_pct DEFAULTS,
       challenge_on := challenge_on DEFAULTS,
       challenge_won := challenge_won DEFAULTS,
       difficulty_choice := difficulty_choice DEFAULTS,
       compare_on := compare_on DEFAULTS,
       scenario_A := scenario_A DEFAULTS,
       scenario_B := scenario_B DEFAULTS\<rparr>"

text \<open>The quick scenarios (lines 138-178): \<open>st.session_state.update\<close> of seven keys.\<close>

definition preset_Business :: "session_state \<Rightarrow> session_state" where
  "preset_Business s =
     s\<lparr>mode := Standard,
       years := 80,
       co2_ppm := 650,
       rainfall_change_pct := 10,
       green_infra_pct := 10,
       urbanization_pct := 65,
       challenge_won := False\<rparr>"

definition preset_Green :: "session_state \<Rightarrow> session_state" where
  "preset_Green s =
     s\<lparr>mode := Standard,
       years := 80,
       co2_ppm := 380,
       rainfall_change_pct := 5,
       green_infra_pct := 70,
       urbanization_pct := 30,
       challenge_won := False\<rparr>"

definition preset_Urban :: "session_state \<Rightarrow> session_state" where
  "preset_Urban s =
     s\<lparr>mode := Standard,
       years := 80,
       co2_ppm := 520,
       rainfall_change_pct := 15,
       green_infra_pct := 15,
       urbanization_pct := 85,
       challenge_won := False\<rparr>"

text \<open>
  Kids against Standard (lines 191-198): in Kids mode the urbanization slider is not
  drawn and the key is assigned 45; in Standard mode both sliders are drawn and nothing
  is assigned.
\<close>

definition mode_branch :: "session_state \<Rightarrow> session_state" where
  "mode_branch s = (if mode s = Kids then s\<lparr>urbanization_pct := 45\<rparr> else s)"

text \<open>
  Reset challenge calibration (lines 208-212): the won flag is cleared and the key
  \<open>difficulty_choice\<close> is popped; the run that \<open>st.rerun()\<close> starts seeds the missing
  key with its default (lines 72-74) before anything reads it.
\<close>

definition reset_challenge_calibration :: "session_state \<Rightarrow> session_state" where
  "reset_challenge_calibration s =
     s\<lparr>challenge_won := False, difficulty_choice := difficulty_choice DEFAULTS\<rparr>"

text \<open>The call of lines 231-237.\<close>

definition run_simulation :: "session_state \<Rightarrow> dataframe" where
  "run_simulation s =
     simulate (years s) (co2_ppm s) (rainfall_change_pct s) (green_infra_pct s)
       (urbanization_pct s)"

text \<open>\<open>.iloc[-1]\<close> raises \<open>IndexError\<close> on an empty column.\<close>

definition iloc_last :: "'a list \<Rightarrow> py_error + 'a" where
  "iloc_last xs = (if xs = [] then Inl IndexError else Inr (last xs))"

text \<open>
  The challenge status box (lines 270-293). The result is the state after the block and
  the effects shown, in order; \<open>Balloons\<close> is the celebration of line 290.
\<close>

definition challenge_status ::
  "session_state \<Rightarrow> int \<Rightarrow> int \<Rightarrow> real \<Rightarrow> real \<Rightarrow> session_state \<times> effect list" where
  "challenge_status s target_flood target_drought flood_val drought_val =
     (if challenge_on s then
        (let flood_ok = (flood_val \<le> real_of_int target_flood);
             drought_ok = (drought_val \<le> real_of_int target_drought);
             colA = (if flood_ok then Success ''Flood OK'' else Error ''Flood too high'');
             colB = (if drought_ok then Success ''Drought OK'' else Error ''Drought too high'')
         in if flood_ok \<and> drought_ok then
              (if \<not> challenge_won s then (s\<lparr>challenge_won := True\<rparr>, [colA, colB, Balloons])
               else (s, [colA, colB]))
            else (s\<lparr>challenge_won := False\<rparr>, [colA, colB]))
      else (s, []))"

text \<open>
  The comparison of lines 361-380. A saved scenario is a non-empty dictionary, so
  \<open>not A\<close> holds exactly when the slot is \<open>None\<close>. \<open>Deltas\<close> carries the three
  differences \<open>tB - tA\<close>, \<open>fB - fA\<close>, \<open>dB - dA\<close> that the metrics of lines 378-380
  format; \<open>Incomplete\<close> is the notice of line 368.
\<close>

datatype comparison = Incomplete | Deltas real real real

definition compare :: "snapshot option \<Rightarrow> snapshot option \<Rightarrow> py_error + comparison" where
  "compare A B =
     (case (A, B) of
        (Some a, Some b) \<Rightarrow>
          (case iloc_last (df a) of
             Inl e \<Rightarrow> Inl e
           | Inr ra \<Rightarrow>
               (case iloc_last (df b) of
                  Inl e \<Rightarrow> Inl e
                | Inr rb \<Rightarrow>
                    Inr (Deltas (temp_anomaly_C rb - temp_anomaly_C ra)
                                (flood_risk rb - flood_risk ra)
                                (drought_risk rb - drought_risk ra))))
      | _ \<Rightarrow> Inr Incomplete)"

text \<open>The whole block (line 360): nothing is shown while the comparison toggle is off.\<close>

definition scenario_comparison :: "session_state \<Rightarrow> (py_error + comparison) option" where
  "scenario_comparison s =
     (if compare_on s then Some (compare (scenario_A s) (scenario_B s)) else None)"

section \<open>One run of the script\<close>

record page =
  table :: dataframe
  temp_val :: real
  flood_val :: real
  drought_val :: real
  challenge_box :: "effect list"
  comparison_box :: "comparison option"

datatype outcome = Rerun session_state | Raised py_error | Done session_state page

text \<open>
  The run started by the button \<open>b\<close> (\<open>No_button\<close>: a widget changed) from the state
  \<open>s\<close>, in the order of the source: the sidebar handlers up to line 212, the targets
  of lines 214-216, the simulation and its last row (lines 231-242), the comparison
  buttons (lines 249-260, drawn only while the comparison toggle is on), the challenge box
  and the comparison. Charts and captions are left out.
\<close>

definition script :: "button \<Rightarrow> session_state \<Rightarrow> outcome" where
  "script b s =
     (if b = Btn_Reset then Rerun (reset_to_default s)
      else if b = Btn_Business then Rerun (preset_Business s)
      else if b = Btn_Green then Rerun (preset_Green s)
      else if b = Btn_Urban then Rerun (preset_Urban s)
      else
        (let s1 = mode_branch s in
         if b = Btn_Reset_challenge then Rerun (reset_challenge_calibration s1)
         else
           (let (target_flood, target_drought) = DIFFICULTY_TARGETS (difficulty_choice s1);
                d = run_simulation s1
            in case iloc_last d of
                 Inl e \<Rightarrow> Raised e
               | Inr final \<Rightarrow>
                   if compare_on s1 \<and> b = Btn_Save_A then
                     Rerun (s1\<lparr>scenario_A := Some (snapshot_current s1 d)\<rparr>)
                   else if compare_on s1 \<and> b = Btn_Save_B then
                     Rerun (s1\<lparr>scenario_B := Some (snapshot_current s1 d)\<rparr>)
                   else if compare_on s1 \<and> b = Btn_Clear then
                     Rerun (s1\<lparr>scenario_A := None, scenario_B := None\<rparr>)
                   else
                     (let (s2, box) = challenge_status s1 target_flood target_drought
                                        (flood_risk final) (drought_risk final)
                      in case scenario_comparison s2 of
                           Some (Inl e) \<Rightarrow> Raised e
                         | Some (Inr c) \<Rightarrow>
                             Done s2 \<lparr>table = d, temp_val = temp_anomaly_C final,
                                      flood_val = flood_risk final,
                                      drought_val = drought_risk final,
                                      challenge_box = box, comparison_box = Some c\<rparr>
                         | None \<Rightarrow>
                             Done s2 \<lparr>table = d, temp_val = temp_anomaly_C final,
                                      flood_val = flood_risk final,
                                      drought_val = drought_risk final,
                                      challenge_box = box, comparison_box = None\<rparr>))))"

text \<open>
  The states the script can be in: the horizon is not negative (the slider, the presets
  and the defaults keep it in 20..120) and a saved table is never empty (line 240 reads
  the last row of the table before lines 252 and 255 can save it).
\<close>

definition saved_ok :: "snapshot option \<Rightarrow> bool" where
  "saved_ok x = (case x of None \<Rightarrow> True | Some a \<Rightarrow> df a \<noteq> [])"

definition wf_state :: "session_state \<Rightarrow> bool" where
  "wf_state s \<longleftrightarrow> 0 \<le> years s \<and> saved_ok (scenario_A s) \<and> saved_ok (scenario_B s)"

section \<open>Rows of the result\<close>

lemma length_simulate:
  "length (simulate y c r g u) = nat (y + 1)"
  by (simp add: simulate_def DataFrame_def Let_def)

lemma nth_upto_int:
  assumes "i < nat (y + 1)"
  shows "[0..y] ! i = int i"
proof -
  from assms have "0 + int i \<le> y" by linarith
  then have "[0..y] ! i = 0 + int i" by (rule nth_upto)
  then show ?thesis by simp
qed

text \<open>The row at offset \<open>i\<close>, with the intermediate quantities of the source named.\<close>

lemma nth_simulate:
  assumes "i < nat (y + 1)"
  shows "simulate y c r g u ! i =
    (let temp_anom = 1.2 * ln (real_of_int c / 280);
         temp = temp_anom * (1 - exp (real_of_int (- int i) / 25));
         rainfall_factor = 1 + real_of_int r / 100;
         runoff_index = rainfall_factor * (0.6 + 1.2 * (real_of_int u / 100))
                          * (1 - 0.55 * (real_of_int g / 100))
     in \<lparr>year = 2025 + int i,
         temp_anomaly_C = temp,
         flood_risk = 100 * (1 - exp (- 0.9 * (runoff_index * (1 + 0.08 * temp)))),
         drought_risk = 100 * (1 - exp (- 0.8 *
            (((1 + 0.18 * temp) / rainfall_factor) * (1 - 0.15 * (real_of_int g / 100)))))\<rparr>)"
  using assms by (simp add: simulate_def DataFrame_def Let_def nth_upto_int)

lemma temp_anom_nonneg:
  assumes "280 \<le> c"
  shows "0 \<le> 1.2 * ln (real_of_int c / 280)"
proof -
  from assms have "280 \<le> real_of_int c" by linarith
  then have "1 \<le> real_of_int c / 280" by simp
  then have "0 \<le> ln (real_of_int c / 280)" by simp
  then show ?thesis by simp
qed

lemma saturation_nonneg: "0 \<le> 1 - exp (real_of_int (- int i) / 25)"
  by simp

lemma saturation_mono:
  assumes "i \<le> j"
  shows "1 - exp (real_of_int (- int i) / 25) \<le> 1 - exp (real_of_int (- int j) / 25)"
  using assms by simp

section \<open>Claims about the simulation model\<close>

text \<open>
  Claim C2. For every in-domain parameter set, \<open>simulate\<close> returns exactly
  \<open>horizonYears + 1\<close> rows; the row at offset \<open>i\<close> has year \<open>2025 + i\<close>, so the
  years start at 2025, end at \<open>2025 + horizonYears\<close> and grow by exactly 1 from each row
  to the next.
\<close>

theorem simulate_years:
  assumes "in_domain y c r g u"
  shows "length (simulate y c r g u) = nat (y + 1)
       \<and> (\<forall>i < length (simulate y c r g u). year (simulate y c r g u ! i) = 2025 + int i)
       \<and> year (simulate y c r g u ! 0) = 2025
       \<and> year (last (simulate y c r g u)) = 2025 + y
       \<and> (\<forall>i. Suc i < length (simulate y c r g u) \<longrightarrow>
             year (simulate y c r g u ! Suc i) = year (simulate y c r g u ! i) + 1)"
proof -
  let ?d = "simulate y c r g u"
  from assms have y: "0 \<le> y" by (simp add: in_domain_def)
  have len: "length ?d = nat (y + 1)" by (rule length_simulate)
  have yr: "year (?d ! i) = 2025 + int i" if "i < length ?d" for i
    using that by (simp add: len nth_simulate Let_def)
  from y len have ne: "?d \<noteq> []" by auto
  have "last ?d = ?d ! (length ?d - 1)" using ne by (rule last_conv_nth)
  then have "year (last ?d) = 2025 + int (length ?d - 1)" using ne yr by simp
  also have "\<dots> = 2025 + y" using y len by simp
  finally have lst: "year (last ?d) = 2025 + y" .
  have fst: "year (?d ! 0) = 2025" using yr [of 0] ne by simp
  have step: "year (?d ! Suc i) = year (?d ! i) + 1" if "Suc i < length ?d" for i
    using that yr [of i] yr [of "Suc i"] by simp
  from len yr fst lst step show ?thesis by blast
qed

theorem simulate_years_witness:
  "in_domain 80 450 10 20 40
   \<and> length (simulate 80 450 10 20 40) = 81
   \<and> year (simulate 80 450 10 20 40 ! 0) = 2025
   \<and> year (last (simulate 80 450 10 20 40)) = 2105"
  using simulate_years [of 80 450 10 20 40] by (simp add: in_domain_def)

text \<open>
  Claim C1. For every in-domain parameter set and every offset \<open>i\<close> in
  \<open>0..horizonYears\<close>, the row that \<open>simulate\<close> computes at offset \<open>i\<close> holds exactly
  the closed forms of the specification: \<open>tempSeries[i]\<close>, \<open>floodRisk[i]\<close> and
  \<open>droughtRisk[i]\<close>. The function is a HOL function of its five arguments, hence pure
  and deterministic; floats are read as reals.
\<close>

theorem simulate_closed_form:
  assumes "in_domain y c r g u" and "0 \<le> i" and "i \<le> y"
  shows "temp_anomaly_C (simulate y c r g u ! nat i) = spec_tempSeries c i
       \<and> flood_risk (simulate y c r g u ! nat i) = spec_floodRisk c r g u i
       \<and> drought_risk (simulate y c r g u ! nat i) = spec_droughtRisk c r g i"
proof -
  from assms have lt: "nat i < nat (y + 1)" by linarith
  from assms have i: "int (nat i) = i" by simp
  have t: "temp_anomaly_C (simulate y c r g u ! nat i) = spec_tempSeries c i"
    using assms(2) by (simp add: nth_simulate [OF lt] Let_def i spec_tempSeries_def)
  have f: "flood_risk (simulate y c r g u ! nat i) = spec_floodRisk c r g u i"
    using assms(2) by (simp add: nth_simulate [OF lt] Let_def i spec_tempSeries_def spec_floodRisk_def
        spec_runoffIndex_def mult.assoc)
  have d: "drought_risk (simulate y c r g u ! nat i) = spec_droughtRisk c r g i"
    using assms(2) by (simp add: nth_simulate [OF lt] Let_def i spec_tempSeries_def spec_droughtRisk_def
        mult.assoc)
  from t f d show ?thesis by blast
qed

theorem simulate_closed_form_witness:
  "in_domain 80 450 10 20 40
   \<and> temp_anomaly_C (simulate 80 450 10 20 40 ! 80) = spec_tempSeries 450 80
   \<and> flood_risk (simulate 80 450 10 20 40 ! 80) = spec_floodRisk 450 10 20 40 80
   \<and> drought_risk (simulate 80 450 10 20 40 ! 80) = spec_droughtRisk 450 10 20 80"
  using simulate_closed_form [of 80 450 10 20 40 80] by (simp add: in_domain_def)

text \<open>
  Claim C3. For every in-domain parameter set (in particular \<open>co2Ppm \<ge> 280\<close>), the
  temperature anomaly is non-decreasing in the offset: for \<open>i < j\<close> within the result,
  the value at \<open>i\<close> is at most the value at \<open>j\<close>.
\<close>

theorem temp_anomaly_monotone:
  assumes "in_domain y c r g u" and "i < j" and "j < length (simulate y c r g u)"
  shows "temp_anomaly_C (simulate y c r g u ! i) \<le> temp_anomaly_C (simulate y c r g u ! j)"
proof -
  from assms have j: "j < nat (y + 1)" by (simp add: length_simulate)
  with assms have i: "i < nat (y + 1)" by linarith
  from assms have "280 \<le> c" by (simp add: in_domain_def)
  then have a: "0 \<le> 1.2 * ln (real_of_int c / 280)" by (rule temp_anom_nonneg)
  from assms have "i \<le> j" by simp
  then have "1 - exp (real_of_int (- int i) / 25) \<le> 1 - exp (real_of_int (- int j) / 25)"
    by (rule saturation_mono)
  then have "1.2 * ln (real_of_int c / 280) * (1 - exp (real_of_int (- int i) / 25))
           \<le> 1.2 * ln (real_of_int c / 280) * (1 - exp (real_of_int (- int j) / 25))"
    using a by (rule mult_left_mono)
  then show ?thesis
    by (simp add: nth_simulate [OF i] nth_simulate [OF j] Let_def)
qed

theorem temp_anomaly_monotone_witness:
  "in_domain 80 450 10 20 40
   \<and> temp_anomaly_C (simulate 80 450 10 20 40 ! 0) \<le> temp_anomaly_C (simulate 80 450 10 20 40 ! 80)"
  using temp_anomaly_monotone [of 80 450 10 20 40 0 80]
  by (simp add: in_domain_def length_simulate)

lemma temp_nonneg:
  assumes "280 \<le> c"
  shows "0 \<le> 1.2 * ln (real_of_int c / 280) * (1 - exp (real_of_int (- int i) / 25))"
  using temp_anom_nonneg [OF assms] saturation_nonneg [of i] by (rule mult_nonneg_nonneg)

lemma saturating_transform_bounds:
  fixes k x :: real
  assumes "0 \<le> k" and "0 \<le> x"
  shows "0 \<le> 100 * (1 - exp (- k * x)) \<and> 100 * (1 - exp (- k * x)) < 100"
proof -
  from assms have "0 \<le> k * x" by simp
  then have "exp (- k * x) \<le> 1" by simp
  moreover have "0 < exp (- k * x)" by simp
  ultimately show ?thesis by simp
qed

lemma runoff_series_nonneg:
  assumes "in_domain y c r g u"
  shows "0 \<le> (1 + real_of_int r / 100) * (0.6 + 1.2 * (real_of_int u / 100))
              * (1 - 0.55 * (real_of_int g / 100))
              * (1 + 0.08 * (1.2 * ln (real_of_int c / 280)
                     * (1 - exp (real_of_int (- int i) / 25))))"
proof -
  from assms have c: "280 \<le> c" and r: "- 30 \<le> r" and g: "0 \<le> g" "g \<le> 100" and u: "0 \<le> u"
    by (simp_all add: in_domain_def)
  have t: "0 \<le> 1.2 * ln (real_of_int c / 280) * (1 - exp (real_of_int (- int i) / 25))"
    using c by (rule temp_nonneg)
  from r have "- 30 \<le> real_of_int r" by linarith
  then have 1: "0 \<le> 1 + real_of_int r / 100" by simp
  from u have "0 \<le> real_of_int u" by simp
  then have 2: "0 \<le> 0.6 + 1.2 * (real_of_int u / 100)" by simp
  from g have "real_of_int g \<le> 100" by linarith
  then have 3: "0 \<le> 1 - 0.55 * (real_of_int g / 100)" by simp
  from t have 4: "0 \<le> 1 + 0.08 * (1.2 * ln (real_of_int c / 280)
                     * (1 - exp (real_of_int (- int i) / 25)))" by simp
  from 1 2 3 4 show ?thesis by (intro mult_nonneg_nonneg)
qed

lemma drought_index_nonneg:
  assumes "in_domain y c r g u"
  shows "0 \<le> ((1 + 0.18 * (1.2 * ln (real_of_int c / 280)
                     * (1 - exp (real_of_int (- int i) / 25))))
               / (1 + real_of_int r / 100)) * (1 - 0.15 * (real_of_int g / 100))"
proof -
  from assms have c: "280 \<le> c" and r: "- 30 \<le> r" and g: "0 \<le> g" "g \<le> 100"
    by (simp_all add: in_domain_def)
  have t: "0 \<le> 1.2 * ln (real_of_int c / 280) * (1 - exp (real_of_int (- int i) / 25))"
    using c by (rule temp_nonneg)
  from r have "- 30 \<le> real_of_int r" by linarith
  then have 1: "0 \<le> 1 + real_of_int r / 100" by simp
  from g have "real_of_int g \<le> 100" by linarith
  then have 3: "0 \<le> 1 - 0.15 * (real_of_int g / 100)" by simp
  from t have 4: "0 \<le> 1 + 0.18 * (1.2 * ln (real_of_int c / 280)
                     * (1 - exp (real_of_int (- int i) / 25)))" by simp
  from 4 1 have "0 \<le> (1 + 0.18 * (1.2 * ln (real_of_int c / 280)
                     * (1 - exp (real_of_int (- int i) / 25)))) / (1 + real_of_int r / 100)"
    by (rule divide_nonneg_nonneg)
  then show ?thesis using 3 by (rule mult_nonneg_nonneg)
qed

text \<open>
  Claim C4. For every in-domain parameter set and every row of the result, the flood
  risk and the drought risk are at least 0 and strictly below 100.
\<close>

theorem risks_in_range:
  assumes "in_domain y c r g u" and "rw \<in> set (simulate y c r g u)"
  shows "0 \<le> flood_risk rw \<and> flood_risk rw < 100 \<and> 0 \<le> drought_risk rw \<and> drought_risk rw < 100"
proof -
  from assms(2) obtain i where i: "i < length (simulate y c r g u)"
    and rw: "rw = simulate y c r g u ! i"
    by (auto simp: in_set_conv_nth)
  from i have lt: "i < nat (y + 1)" by (simp add: length_simulate)
  have f: "0 \<le> flood_risk rw \<and> flood_risk rw < 100"
    unfolding rw using saturating_transform_bounds [OF _ runoff_series_nonneg [OF assms(1), of i], of "0.9"]
    by (simp add: nth_simulate [OF lt] Let_def)
  have d: "0 \<le> drought_risk rw \<and> drought_risk rw < 100"
    unfolding rw using saturating_transform_bounds [OF _ drought_index_nonneg [OF assms(1), of i], of "0.8"]
    by (simp add: nth_simulate [OF lt] Let_def)
  from f d show ?thesis by blast
qed

theorem risks_in_range_witness:
  "in_domain 80 450 10 20 40
   \<and> simulate 80 450 10 20 40 ! 80 \<in> set (simulate 80 450 10 20 40)
   \<and> 0 \<le> flood_risk (simulate 80 450 10 20 40 ! 80)
   \<and> flood_risk (simulate 80 450 10 20 40 ! 80) < 100
   \<and> 0 \<le> drought_risk (simulate 80 450 10 20 40 ! 80)
   \<and> drought_risk (simulate 80 450 10 20 40 ! 80) < 100"
proof -
  have d: "in_domain 80 450 10 20 40" by (simp add: in_domain_def)
  have m: "simulate 80 450 10 20 40 ! 80 \<in> set (simulate 80 450 10 20 40)"
    by (rule nth_mem) (simp add: length_simulate)
  from d m risks_in_range [OF d m] show ?thesis by blast
qed

section \<open>Facts about the blocks and the run\<close>

lemma mode_branch_frame:
  "mode (mode_branch s) = mode s"
  "years (mode_branch s) = years s"
  "co2_ppm (mode_branch s) = co2_ppm s"
  "rainfall_change_pct (mode_branch s) = rainfall_change_pct s"
  "green_infra_pct (mode_branch s) = green_infra_pct s"
  "challenge_on (mode_branch s) = challenge_on s"
  "challenge_won (mode_branch s) = challenge_won s"
  "difficulty_choice (mode_branch s) = difficulty_choice s"
  "compare_on (mode_branch s) = compare_on s"
  "scenario_A (mode_branch s) = scenario_A s"
  "scenario_B (mode_branch s) = scenario_B s"
  by (simp_all add: mode_branch_def)

lemma challenge_status_frame:
  "parameters.truncate (fst (challenge_status s tf td f d)) = parameters.truncate s"
  "challenge_on (fst (challenge_status s tf td f d)) = challenge_on s"
  "difficulty_choice (fst (challenge_status s tf td f d)) = difficulty_choice s"
  "compare_on (fst (challenge_status s tf td f d)) = compare_on s"
  "scenario_A (fst (challenge_status s tf td f d)) = scenario_A s"
  "scenario_B (fst (challenge_status s tf td f d)) = scenario_B s"
  by (simp_all add: challenge_status_def Let_def parameters.truncate_def)

lemma run_simulation_nonempty:
  assumes "0 \<le> years s"
  shows "run_simulation s \<noteq> []"
proof -
  have "length (run_simulation s) = nat (years s + 1)"
    by (simp add: run_simulation_def length_simulate)
  with assms show ?thesis by auto
qed

text \<open>What a run that reaches the end of the script has done.\<close>

lemma script_Done:
  assumes "script b s = Done s' p"
  shows "table p = run_simulation (mode_branch s)"
    and "s' = fst (challenge_status (mode_branch s)
                 (fst (DIFFICULTY_TARGETS (difficulty_choice s)))
                 (snd (DIFFICULTY_TARGETS (difficulty_choice s)))
                 (flood_val p) (drought_val p))"
    and "challenge_box p = snd (challenge_status (mode_branch s)
                 (fst (DIFFICULTY_TARGETS (difficulty_choice s)))
                 (snd (DIFFICULTY_TARGETS (difficulty_choice s)))
                 (flood_val p) (drought_val p))"
    and "iloc_last (table p) = Inr \<lparr>year = year (last (table p)), temp_anomaly_C = temp_val p,
            flood_risk = flood_val p, drought_risk = drought_val p\<rparr>"
  using assms
  by (auto simp: script_def Let_def mode_branch_frame iloc_last_def
      split: if_splits sum.splits option.splits prod.splits)

text \<open>A run without a button, with the comparison toggle off, reaches the end.\<close>

lemma script_No_button:
  assumes "0 \<le> years s" and "\<not> compare_on s"
  shows "\<exists>p. script No_button s
            = Done (fst (challenge_status (mode_branch s)
                        (fst (DIFFICULTY_TARGETS (difficulty_choice s)))
                        (snd (DIFFICULTY_TARGETS (difficulty_choice s)))
                        (flood_risk (last (run_simulation (mode_branch s))))
                        (drought_risk (last (run_simulation (mode_branch s)))))) p
           \<and> table p = run_simulation (mode_branch s)
           \<and> flood_val p = flood_risk (last (run_simulation (mode_branch s)))
           \<and> drought_val p = drought_risk (last (run_simulation (mode_branch s)))"
proof -
  from assms(1) have "0 \<le> years (mode_branch s)" by (simp add: mode_branch_frame)
  then have ne: "run_simulation (mode_branch s) \<noteq> []" by (rule run_simulation_nonempty)
  from assms(2) have c: "\<not> compare_on (mode_branch s)" by (simp add: mode_branch_frame)
  show ?thesis
    using ne c
    by (simp add: script_def Let_def iloc_last_def scenario_comparison_def
        challenge_status_frame mode_branch_frame case_prod_beta)
qed

lemma saturating_transform_lower:
  fixes a x :: real
  assumes "0 \<le> a" and "a \<le> x"
  shows "100 * (1 - 1 / (1 + a)) \<le> 100 * (1 - exp (- x))"
proof -
  have "1 + a \<le> exp a" by (rule exp_ge_add_one_self)
  moreover from assms(1) have "0 < 1 + a" by simp
  ultimately have "1 / exp a \<le> 1 / (1 + a)" by (simp add: frac_le)
  moreover from assms(2) have "exp (- x) \<le> exp (- a)" by simp
  moreover have "exp (- a) = 1 / exp a" by (simp add: exp_minus inverse_eq_divide)
  ultimately have "exp (- x) \<le> 1 / (1 + a)" by simp
  then show ?thesis by simp
qed

lemma runoff_index_nonneg:
  assumes "in_domain y c r g u"
  shows "0 \<le> (1 + real_of_int r / 100) * (0.6 + 1.2 * (real_of_int u / 100))
              * (1 - 0.55 * (real_of_int g / 100))"
proof -
  from assms have r: "- 30 \<le> r" and g: "g \<le> 100" and u: "0 \<le> u"
    by (simp_all add: in_domain_def)
  from r have "- 30 \<le> real_of_int r" by linarith
  then have 1: "0 \<le> 1 + real_of_int r / 100" by simp
  from u have "0 \<le> real_of_int u" by simp
  then have 2: "0 \<le> 0.6 + 1.2 * (real_of_int u / 100)" by simp
  from g have "real_of_int g \<le> 100" by linarith
  then have 3: "0 \<le> 1 - 0.55 * (real_of_int g / 100)" by simp
  from 1 2 3 show ?thesis by (intro mult_nonneg_nonneg)
qed

text \<open>Warming only adds to the runoff: a lower bound of the flood risk that has no \<open>exp\<close>.\<close>

lemma flood_risk_lower:
  assumes "in_domain y c r g u" and "i < nat (y + 1)"
  shows "100 * (1 - 1 / (1 + 0.9 * ((1 + real_of_int r / 100) * (0.6 + 1.2 * (real_of_int u / 100))
              * (1 - 0.55 * (real_of_int g / 100)))))
         \<le> flood_risk (simulate y c r g u ! i)"
proof -
  define R where "R = (1 + real_of_int r / 100) * (0.6 + 1.2 * (real_of_int u / 100))
              * (1 - 0.55 * (real_of_int g / 100))"
  define T where "T = 1.2 * ln (real_of_int c / 280) * (1 - exp (real_of_int (- int i) / 25))"
  from assms(1) have c: "280 \<le> c" by (simp add: in_domain_def)
  have R: "0 \<le> R" unfolding R_def using assms(1) by (rule runoff_index_nonneg)
  have T: "0 \<le> T" unfolding T_def using c by (rule temp_nonneg)
  from T have "1 \<le> 1 + 0.08 * T" by simp
  with R have "R * 1 \<le> R * (1 + 0.08 * T)" by (rule mult_left_mono [rotated])
  then have le: "0.9 * R \<le> 0.9 * (R * (1 + 0.08 * T))" by simp
  from R have "0 \<le> 0.9 * R" by simp
  then have "100 * (1 - 1 / (1 + 0.9 * R)) \<le> 100 * (1 - exp (- (0.9 * (R * (1 + 0.08 * T)))))"
    using le by (rule saturating_transform_lower)
  moreover have "flood_risk (simulate y c r g u ! i)
      = 100 * (1 - exp (- (0.9 * (R * (1 + 0.08 * T)))))"
    by (simp add: nth_simulate [OF assms(2)] Let_def R_def T_def)
  ultimately show ?thesis unfolding R_def by simp
qed

subsection \<open>Margins of the two risks\<close>

lemma exp_3_le: "exp (3::real) \<le> 27"
proof -
  have "exp (3::real) = exp 1 * exp 1 * exp 1" by (simp add: mult_exp_exp)
  also have "\<dots> \<le> 3 * 3 * 3" by (intro mult_mono exp_le) simp_all
  finally show ?thesis by simp
qed

lemma exp_2_le: "exp (2::real) \<le> 9"
proof -
  have "exp (2::real) = exp 1 * exp 1" by (simp add: mult_exp_exp)
  also have "\<dots> \<le> 3 * 3" by (intro mult_mono exp_le) simp_all
  finally show ?thesis by simp
qed

lemma saturating_transform_upper:
  fixes x b B :: real
  assumes "x \<le> b" and "exp b \<le> B" 
  shows "100 * (1 - exp (- x)) \<le> 100 * (1 - 1 / B)"
proof -
  have "0 < exp b" by simp
  with assms(2) have "1 / B \<le> 1 / exp b" by (simp add: frac_le)
  also have "\<dots> = exp (- b)" by (simp add: exp_minus inverse_eq_divide)
  also from assms(1) have "\<dots> \<le> exp (- x)" by simp
  finally show ?thesis by simp
qed

lemma temp_upper:
  assumes "280 \<le> c" and "c \<le> 900"
  shows "1.2 * ln (real_of_int c / 280) * (1 - exp (real_of_int (- int i) / 25)) \<le> 2.7"
proof -
  from assms have c: "280 \<le> real_of_int c" "real_of_int c \<le> 900" by linarith+
  then have pos: "0 < real_of_int c / 280" by simp
  then have "ln (real_of_int c / 280) \<le> real_of_int c / 280 - 1" by (rule ln_le_minus_one)
  also from c have "\<dots> \<le> 2.25" by simp
  finally have A: "1.2 * ln (real_of_int c / 280) \<le> 2.7" by simp
  have A0: "0 \<le> 1.2 * ln (real_of_int c / 280)" using assms(1) by (rule temp_anom_nonneg)
  have S: "1 - exp (real_of_int (- int i) / 25) \<le> 1" by simp
  have "1.2 * ln (real_of_int c / 280) * (1 - exp (real_of_int (- int i) / 25))
        \<le> 1.2 * ln (real_of_int c / 280) * 1"
    using S A0 by (rule mult_left_mono)
  with A show ?thesis by simp
qed


lemma rainfall_factor_bounds:
  assumes "- 30 \<le> r" and "r \<le> 50"
  shows "0.7 \<le> 1 + real_of_int r / 100" and "1 + real_of_int r / 100 \<le> 1.5"
proof -
  from assms have "- 30 \<le> real_of_int r" "real_of_int r \<le> 50" by linarith+
  then show "0.7 \<le> 1 + real_of_int r / 100" and "1 + real_of_int r / 100 \<le> 1.5"
    by simp_all
qed

lemma impervious_term_bounds:
  assumes "0 \<le> u" and "u \<le> 100"
  shows "0.6 \<le> 0.6 + 1.2 * (real_of_int u / 100)" and "0.6 + 1.2 * (real_of_int u / 100) \<le> 1.8"
proof -
  from assms have "0 \<le> real_of_int u" "real_of_int u \<le> 100" by linarith+
  then show "0.6 \<le> 0.6 + 1.2 * (real_of_int u / 100)"
    and "0.6 + 1.2 * (real_of_int u / 100) \<le> 1.8"
    by simp_all
qed

lemma green_term_bounds:
  assumes "0 \<le> g" and "g \<le> 100"
  shows "0.45 \<le> 1 - 0.55 * (real_of_int g / 100)" and "1 - 0.55 * (real_of_int g / 100) \<le> 1"
    and "0.85 \<le> 1 - 0.15 * (real_of_int g / 100)" and "1 - 0.15 * (real_of_int g / 100) \<le> 1"
proof -
  from assms have "0 \<le> real_of_int g" "real_of_int g \<le> 100" by linarith+
  then show "0.45 \<le> 1 - 0.55 * (real_of_int g / 100)" and "1 - 0.55 * (real_of_int g / 100) \<le> 1"
    and "0.85 \<le> 1 - 0.15 * (real_of_int g / 100)" and "1 - 0.15 * (real_of_int g / 100) \<le> 1"
    by simp_all
qed

text \<open>
  Both risks stay well inside the interval over the whole domain, so the bounds of the
  real-valued model are not at the mercy of rounding.
\<close>

lemma risk_margins:
  assumes "in_domain y c r g u" and "i < nat (y + 1)"
  shows "14 \<le> flood_risk (simulate y c r g u ! i)"
    and "flood_risk (simulate y c r g u ! i) \<le> 97"
    and "31 \<le> drought_risk (simulate y c r g u ! i)"
    and "drought_risk (simulate y c r g u ! i) \<le> 89"
proof -
  define F where "F = 1 + real_of_int r / 100"
  define I where "I = 0.6 + 1.2 * (real_of_int u / 100)"
  define G where "G = 1 - 0.55 * (real_of_int g / 100)"
  define H where "H = 1 - 0.15 * (real_of_int g / 100)"
  define T where "T = 1.2 * ln (real_of_int c / 280) * (1 - exp (real_of_int (- int i) / 25))"
  from assms(1) have c: "280 \<le> c" "c \<le> 900" and r: "- 30 \<le> r" "r \<le> 50"
    and g: "0 \<le> g" "g \<le> 100" and u: "0 \<le> u" "u \<le> 100"
    by (simp_all add: in_domain_def)
  note F = rainfall_factor_bounds [OF r, folded F_def]
  note I = impervious_term_bounds [OF u, folded I_def]
  note G = green_term_bounds(1,2) [OF g, folded G_def]
  note H = green_term_bounds(3,4) [OF g, folded H_def]
  note T = temp_nonneg [OF c(1), of i, folded T_def] temp_upper [OF c, of i, folded T_def]
  have fl: "flood_risk (simulate y c r g u ! i) = 100 * (1 - exp (- (0.9 * (F * I * G * (1 + 0.08 * T)))))"
    by (simp add: nth_simulate [OF assms(2)] Let_def F_def I_def G_def T_def)
  have dr: "drought_risk (simulate y c r g u ! i) = 100 * (1 - exp (- (0.8 * ((1 + 0.18 * T) / F * H))))"
    by (simp add: nth_simulate [OF assms(2)] Let_def F_def H_def T_def)
  from F I G H have pos: "0 \<le> F" "0 \<le> I" "0 \<le> G" "0 \<le> H" "0 < F" by simp_all
  from pos have FI0: "0 \<le> F * I" by simp
  have FI_lo: "0.7 * 0.6 \<le> F * I" by (rule mult_mono [OF F(1) I(1) pos(1)]) simp
  have FI_hi: "F * I \<le> 1.5 * 1.8" by (rule mult_mono [OF F(2) I(2) _ pos(2)]) simp
  from FI0 pos have R0: "0 \<le> F * I * G" by simp
  have R_lo: "0.7 * 0.6 * 0.45 \<le> F * I * G" by (rule mult_mono [OF FI_lo G(1) FI0]) simp
  have R_hi: "F * I * G \<le> 1.5 * 1.8 * 1" by (rule mult_mono [OF FI_hi G(2) _ pos(3)]) simp
  from T have W: "1 \<le> 1 + 0.08 * T" "1 + 0.08 * T \<le> 1.216" "0 \<le> 1 + 0.08 * T" by simp_all
  have Q_lo: "0.7 * 0.6 * 0.45 * 1 \<le> F * I * G * (1 + 0.08 * T)"
    by (rule mult_mono [OF R_lo W(1) R0]) simp
  have Q_hi: "F * I * G * (1 + 0.08 * T) \<le> 1.5 * 1.8 * 1 * 1.216"
    by (rule mult_mono [OF R_hi W(2) _ W(3)]) simp
  define Q where "Q = F * I * G * (1 + 0.08 * T)"
  from Q_lo Q_hi have Q: "0.17 \<le> 0.9 * Q" "0.9 * Q \<le> 3" unfolding Q_def [symmetric] by simp_all
  from fl have fl': "flood_risk (simulate y c r g u ! i) = 100 * (1 - exp (- (0.9 * Q)))"
    by (simp add: Q_def)
  have "100 * (1 - 1 / (1 + 0.17)) \<le> 100 * (1 - exp (- (0.9 * Q)))"
    using _ Q(1) by (rule saturating_transform_lower) simp
  with fl' show "14 \<le> flood_risk (simulate y c r g u ! i)" by simp
  have "100 * (1 - exp (- (0.9 * Q))) \<le> 100 * (1 - 1 / 27)"
    using Q(2) exp_3_le by (rule saturating_transform_upper)
  with fl' show "flood_risk (simulate y c r g u ! i) \<le> 97" by simp
  from T have E: "1 \<le> 1 + 0.18 * T" "1 + 0.18 * T \<le> 1.486" "0 \<le> 1 + 0.18 * T" by simp_all
  have q_lo: "1 / 1.5 \<le> (1 + 0.18 * T) / F" by (rule frac_le [OF E(3) E(1) pos(5) F(2)])
  have q_hi: "(1 + 0.18 * T) / F \<le> 1.486 / 0.7" by (rule frac_le [OF _ E(2) _ F(1)]) simp_all
  from E(3) pos(5) have q0: "0 \<le> (1 + 0.18 * T) / F" by simp
  have D_lo: "1 / 1.5 * 0.85 \<le> (1 + 0.18 * T) / F * H" by (rule mult_mono [OF q_lo H(1) q0]) simp
  have D_hi: "(1 + 0.18 * T) / F * H \<le> 1.486 / 0.7 * 1" by (rule mult_mono [OF q_hi H(2) _ pos(4)]) simp
  define D where "D = (1 + 0.18 * T) / F * H"
  from D_lo D_hi have D: "0.45 \<le> 0.8 * D" "0.8 * D \<le> 2" unfolding D_def [symmetric] by simp_all
  from dr have dr': "drought_risk (simulate y c r g u ! i) = 100 * (1 - exp (- (0.8 * D)))"
    by (simp add: D_def)
  have "100 * (1 - 1 / (1 + 0.45)) \<le> 100 * (1 - exp (- (0.8 * D)))"
    using _ D(1) by (rule saturating_transform_lower) simp
  with dr' show "31 \<le> drought_risk (simulate y c r g u ! i)" by simp
  have "100 * (1 - exp (- (0.8 * D))) \<le> 100 * (1 - 1 / 9)"
    using D(2) exp_2_le by (rule saturating_transform_upper)
  with dr' show "drought_risk (simulate y c r g u ! i) \<le> 89" by simp
qed

subsection \<open>The states the script can be in\<close>

lemma wf_state_DEFAULTS: "wf_state DEFAULTS"
  by (simp add: wf_state_def saved_ok_def DEFAULTS_def)

lemma wf_state_mode_branch: "wf_state (mode_branch s) = wf_state s"
  by (simp add: wf_state_def mode_branch_frame)

lemma compare_saved_ok:
  assumes "saved_ok A" and "saved_ok B"
  shows "\<exists>c. compare A B = Inr c"
  using assms by (auto simp: compare_def saved_ok_def iloc_last_def split: option.splits)

text \<open>The run after the sidebar handlers, as a function of the state after the mode branch.\<close>

lemma script_Rerun:
  assumes "script b s = Rerun s'"
  shows "s' = reset_to_default s \<or> s' = preset_Business s \<or> s' = preset_Green s
       \<or> s' = preset_Urban s \<or> s' = reset_challenge_calibration (mode_branch s)
       \<or> run_simulation (mode_branch s) \<noteq> [] \<and>
           (s' = (mode_branch s)\<lparr>scenario_A :=
                    Some (snapshot_current (mode_branch s) (run_simulation (mode_branch s)))\<rparr>
            \<or> s' = (mode_branch s)\<lparr>scenario_B :=
                    Some (snapshot_current (mode_branch s) (run_simulation (mode_branch s)))\<rparr>
            \<or> s' = (mode_branch s)\<lparr>scenario_A := None, scenario_B := None\<rparr>)"
  using assms
  by (simp add: script_def Let_def iloc_last_def case_prod_beta
      split: if_splits sum.splits option.splits)

lemma script_Raised:
  assumes "script b s = Raised e"
  shows "run_simulation (mode_branch s) = []
       \<or> compare (scenario_A s) (scenario_B s) = Inl e"
  using assms
  by (simp add: script_def Let_def iloc_last_def case_prod_beta scenario_comparison_def
      challenge_status_frame mode_branch_frame
      split: if_splits sum.splits option.splits)

text \<open>
  From a state with a non-negative horizon whose saved tables are not empty, no run
  raises, and every run ends in such a state again: \<open>.iloc[-1]\<close> never fails.
\<close>

lemma script_never_raises:
  assumes "wf_state s"
  shows "script b s \<noteq> Raised e"
proof
  assume "script b s = Raised e"
  then have "run_simulation (mode_branch s) = []
       \<or> compare (scenario_A s) (scenario_B s) = Inl e"
    by (rule script_Raised)
  moreover from assms have "0 \<le> years (mode_branch s)"
    by (simp add: wf_state_def mode_branch_frame)
  then have "run_simulation (mode_branch s) \<noteq> []" by (rule run_simulation_nonempty)
  moreover from assms have "\<exists>c. compare (scenario_A s) (scenario_B s) = Inr c"
    by (simp add: wf_state_def compare_saved_ok)
  ultimately show False by auto
qed

lemma script_Rerun_wf:
  assumes "wf_state s" and "script b s = Rerun s'"
  shows "wf_state s'"
proof -
  let ?s1 = "mode_branch s"
  from assms(1) have wf1: "wf_state ?s1" by (simp add: wf_state_mode_branch)
  have 1: "wf_state (reset_to_default s)"
    by (simp add: wf_state_def saved_ok_def reset_to_default_def DEFAULTS_def)
  have 2: "wf_state (preset_Business s)"
    using assms(1) by (simp add: wf_state_def preset_Business_def)
  have 3: "wf_state (preset_Green s)"
    using assms(1) by (simp add: wf_state_def preset_Green_def)
  have 4: "wf_state (preset_Urban s)"
    using assms(1) by (simp add: wf_state_def preset_Urban_def)
  have 5: "wf_state (reset_challenge_calibration ?s1)"
    using wf1 by (simp add: wf_state_def reset_challenge_calibration_def)
  have 6: "wf_state (?s1\<lparr>scenario_A := Some (snapshot_current ?s1 (run_simulation ?s1))\<rparr>)"
    if "run_simulation ?s1 \<noteq> []"
    using wf1 that by (simp add: wf_state_def saved_ok_def snapshot_current_def)
  have 7: "wf_state (?s1\<lparr>scenario_B := Some (snapshot_current ?s1 (run_simulation ?s1))\<rparr>)"
    if "run_simulation ?s1 \<noteq> []"
    using wf1 that by (simp add: wf_state_def saved_ok_def snapshot_current_def)
  have 8: "wf_state (?s1\<lparr>scenario_A := None, scenario_B := None\<rparr>)"
    using wf1 by (simp add: wf_state_def saved_ok_def)
  from script_Rerun [OF assms(2)] 1 2 3 4 5 6 7 8 show ?thesis by blast
qed

lemma script_Done_wf:
  assumes "wf_state s" and "script b s = Done s' p"
  shows "wf_state s'"
proof -
  from script_Done(2) [OF assms(2)]
  have "years s' = years (mode_branch s)" "scenario_A s' = scenario_A (mode_branch s)"
    "scenario_B s' = scenario_B (mode_branch s)"
    by (simp_all add: challenge_status_def Let_def)
  with assms(1) show ?thesis by (simp add: wf_state_def mode_branch_frame)
qed

lemma script_No_button_DEFAULTS: "\<exists>p. script No_button DEFAULTS = Done DEFAULTS p"
proof -
  have "0 \<le> years DEFAULTS" and "\<not> compare_on DEFAULTS" by (simp_all add: DEFAULTS_def)
  then obtain p where
    "script No_button DEFAULTS
          = Done (fst (challenge_status (mode_branch DEFAULTS)
                        (fst (DIFFICULTY_TARGETS (difficulty_choice DEFAULTS)))
                        (snd (DIFFICULTY_TARGETS (difficulty_choice DEFAULTS)))
                        (flood_risk (last (run_simulation (mode_branch DEFAULTS))))
                        (drought_risk (last (run_simulation (mode_branch DEFAULTS)))))) p"
    using script_No_button [of DEFAULTS] by blast
  moreover have "mode_branch DEFAULTS = DEFAULTS" by (simp add: mode_branch_def DEFAULTS_def)
  moreover have "fst (challenge_status DEFAULTS tf td f d) = DEFAULTS" for tf td f d
    by (simp add: challenge_status_def DEFAULTS_def)
  ultimately show ?thesis by auto
qed

subsection \<open>The challenge block inside a run\<close>

lemma mode_branch_challenge_won:
  "mode_branch (s\<lparr>challenge_won := w\<rparr>) = (mode_branch s)\<lparr>challenge_won := w\<rparr>"
  by (simp add: mode_branch_def)

lemma mode_branch_idem: "mode_branch (mode_branch s) = mode_branch s"
  by (simp add: mode_branch_def)

lemma run_simulation_challenge_won:
  "run_simulation (s\<lparr>challenge_won := w\<rparr>) = run_simulation s"
  by (simp add: run_simulation_def)

text \<open>The three end-of-horizon values of a finished run are those of the last row of its table.\<close>

lemma script_Done_last:
  assumes "script b s = Done s' p"
  shows "table p \<noteq> []"
    and "temp_val p = temp_anomaly_C (last (table p))"
    and "flood_val p = flood_risk (last (table p))"
    and "drought_val p = drought_risk (last (table p))"
  using assms
  by (auto simp: script_def Let_def iloc_last_def case_prod_beta
      split: if_splits sum.splits option.splits)

text \<open>With the challenge on, the state after the block is the state before it with a new won flag.\<close>

lemma challenge_status_on:
  assumes "challenge_on s"
  shows "fst (challenge_status s tf td f d)
           = s\<lparr>challenge_won := (f \<le> real_of_int tf \<and> d \<le> real_of_int td)\<rparr>"
    and "Balloons \<in> set (snd (challenge_status s tf td f d))
           \<longleftrightarrow> f \<le> real_of_int tf \<and> d \<le> real_of_int td \<and> \<not> challenge_won s"
  using assms by (simp_all add: challenge_status_def Let_def)

lemma challenge_status_once:
  "count_list (snd (challenge_status s tf td f d)) Balloons \<le> 1"
  by (simp add: challenge_status_def Let_def)

lemma saturating_transform_linear:
  fixes x :: real
  shows "100 * (1 - exp (- x)) \<le> 100 * x"
proof -
  have "1 + (- x) \<le> exp (- x)" by (rule exp_ge_add_one_self)
  then show ?thesis by simp
qed

section \<open>Claims about the session state\<close>

text \<open>
  Claim C5. The targets are Easy 55/55, Medium 40/40 and Hard 30/30. With the challenge
  enabled and the targets of the active difficulty, evaluating a final flood and
  drought risk sets the won flag to "both risks are at or below their targets" and
  changes nothing else; the celebration is emitted exactly when both targets are met
  and the flag was false before, at most once per evaluation; when a target is missed
  the flag becomes false without an event; evaluating again from the resulting state
  with the same risks emits no event. In a run of the script the two risks are those of
  the last row of the table just computed: a run that reaches its end leaves the state
  after the mode branch with the won flag so set, celebrates exactly on the edge from
  not won to won, and a further run from the state it leaves computes the same table,
  leaves the state as it is and celebrates nothing.
\<close>

theorem challenge_win_edge:
  assumes "challenge_on s" and "DIFFICULTY_TARGETS (difficulty_choice s) = (tf, td)"
  shows "DIFFICULTY_TARGETS Easy = (55, 55) \<and> DIFFICULTY_TARGETS Medium = (40, 40)
       \<and> DIFFICULTY_TARGETS Hard = (30, 30)
       \<and> (tf, td) = (case difficulty_choice s of
                        Easy \<Rightarrow> (55, 55) | Medium \<Rightarrow> (40, 40) | Hard \<Rightarrow> (30, 30))
       \<and> fst (challenge_status s tf td f d)
           = s\<lparr>challenge_won := (f \<le> real_of_int tf \<and> d \<le> real_of_int td)\<rparr>
       \<and> (Balloons \<in> set (snd (challenge_status s tf td f d))
             \<longleftrightarrow> f \<le> real_of_int tf \<and> d \<le> real_of_int td \<and> \<not> challenge_won s)
       \<and> count_list (snd (challenge_status s tf td f d)) Balloons \<le> 1
       \<and> Balloons \<notin> set (snd (challenge_status (fst (challenge_status s tf td f d)) tf td f d))
       \<and> (script b s = Done s' p \<longrightarrow>
            table p = run_simulation (mode_branch s) \<and> table p \<noteq> []
            \<and> s' = (mode_branch s)\<lparr>challenge_won :=
                       (flood_risk (last (table p)) \<le> real_of_int tf
                        \<and> drought_risk (last (table p)) \<le> real_of_int td)\<rparr>
            \<and> (Balloons \<in> set (challenge_box p)
                  \<longleftrightarrow> flood_risk (last (table p)) \<le> real_of_int tf
                      \<and> drought_risk (last (table p)) \<le> real_of_int td
                      \<and> \<not> challenge_won s)
            \<and> count_list (challenge_box p) Balloons \<le> 1
            \<and> (script b' s' = Done s'' p' \<longrightarrow>
                  table p' = table p \<and> s'' = s' \<and> Balloons \<notin> set (challenge_box p')))"
proof -
  have tab: "DIFFICULTY_TARGETS Easy = (55, 55) \<and> DIFFICULTY_TARGETS Medium = (40, 40)
       \<and> DIFFICULTY_TARGETS Hard = (30, 30)"
    by simp
  have t: "(tf, td) = (case difficulty_choice s of
                        Easy \<Rightarrow> (55, 55) | Medium \<Rightarrow> (40, 40) | Hard \<Rightarrow> (30, 30))"
    using assms(2) by (cases "difficulty_choice s") simp_all
  note st = challenge_status_on(1) [OF assms(1), of tf td f d]
  note ev = challenge_status_on(2) [OF assms(1), of tf td f d]
  note once = challenge_status_once [of s tf td f d]
  have again: "Balloons \<notin> set (snd (challenge_status (fst (challenge_status s tf td f d)) tf td f d))"
    by (simp add: challenge_status_def Let_def)
  have run: "table p = run_simulation (mode_branch s) \<and> table p \<noteq> []
            \<and> s' = (mode_branch s)\<lparr>challenge_won :=
                       (flood_risk (last (table p)) \<le> real_of_int tf
                        \<and> drought_risk (last (table p)) \<le> real_of_int td)\<rparr>
            \<and> (Balloons \<in> set (challenge_box p)
                  \<longleftrightarrow> flood_risk (last (table p)) \<le> real_of_int tf
                      \<and> drought_risk (last (table p)) \<le> real_of_int td
                      \<and> \<not> challenge_won s)
            \<and> count_list (challenge_box p) Balloons \<le> 1
            \<and> (script b' s' = Done s'' p' \<longrightarrow>
                  table p' = table p \<and> s'' = s' \<and> Balloons \<notin> set (challenge_box p'))"
    if run1: "script b s = Done s' p"
  proof -
    let ?s1 = "mode_branch s"
    let ?ok = "flood_risk (last (table p)) \<le> real_of_int tf
                 \<and> drought_risk (last (table p)) \<le> real_of_int td"
    from assms(1) have on1: "challenge_on ?s1" by (simp add: mode_branch_frame)
    from assms(2) have tg: "fst (DIFFICULTY_TARGETS (difficulty_choice s)) = tf"
      "snd (DIFFICULTY_TARGETS (difficulty_choice s)) = td" by simp_all
    note fin = script_Done_last [OF run1]
    have tbl: "table p = run_simulation ?s1" using run1 by (rule script_Done(1))
    have s': "s' = ?s1\<lparr>challenge_won := ?ok\<rparr>"
      using script_Done(2) [OF run1] challenge_status_on(1) [OF on1]
      by (simp add: tg fin)
    have box: "challenge_box p = snd (challenge_status ?s1 tf td
                 (flood_risk (last (table p))) (drought_risk (last (table p))))"
      using script_Done(3) [OF run1] by (simp add: tg fin)
    have ev': "Balloons \<in> set (challenge_box p) \<longleftrightarrow> ?ok \<and> \<not> challenge_won s"
      unfolding box using challenge_status_on(2) [OF on1] by (simp add: mode_branch_frame)
    have once': "count_list (challenge_box p) Balloons \<le> 1"
      unfolding box by (rule challenge_status_once)
    have again': "table p' = table p \<and> s'' = s' \<and> Balloons \<notin> set (challenge_box p')"
      if run2: "script b' s' = Done s'' p'"
    proof -
      have mb: "mode_branch s' = s'"
        by (simp add: s' mode_branch_challenge_won mode_branch_idem)
      have on': "challenge_on s'" using on1 by (simp add: s')
      have dc: "difficulty_choice s' = difficulty_choice s" by (simp add: s' mode_branch_frame)
      have won': "challenge_won s' = ?ok" by (simp add: s')
      note fin' = script_Done_last [OF run2]
      have "table p' = run_simulation (mode_branch s')" using run2 by (rule script_Done(1))
      also have "\<dots> = run_simulation ?s1" by (simp add: mb) (simp add: s' run_simulation_challenge_won)
      finally have tbl': "table p' = table p" by (simp add: tbl)
      have "s'' = s'\<lparr>challenge_won := ?ok\<rparr>"
        using script_Done(2) [OF run2] challenge_status_on(1) [OF on']
        by (simp add: mb dc tg fin' tbl')
      then have same: "s'' = s'" by (simp add: s')
      have "challenge_box p' = snd (challenge_status s' tf td
                 (flood_risk (last (table p))) (drought_risk (last (table p))))"
        using script_Done(3) [OF run2] by (simp add: mb dc tg fin' tbl')
      then have "Balloons \<in> set (challenge_box p') \<longleftrightarrow> ?ok \<and> \<not> challenge_won s'"
        using challenge_status_on(2) [OF on'] by simp
      with won' have "Balloons \<notin> set (challenge_box p')" by simp
      with tbl' same show ?thesis by blast
    qed
    from tbl fin(1) s' ev' once' again' show ?thesis by blast
  qed
  from tab t st ev once again run show ?thesis by blast
qed

theorem challenge_win_edge_witness:
  "challenge_on (DEFAULTS\<lparr>challenge_on := True\<rparr>)
   \<and> DIFFICULTY_TARGETS (difficulty_choice (DEFAULTS\<lparr>challenge_on := True\<rparr>)) = (40, 40)
   \<and> \<not> challenge_won (DEFAULTS\<lparr>challenge_on := True\<rparr>)
   \<and> challenge_won (fst (challenge_status (DEFAULTS\<lparr>challenge_on := True\<rparr>) 40 40 38 35))
   \<and> Balloons \<in> set (snd (challenge_status (DEFAULTS\<lparr>challenge_on := True\<rparr>) 40 40 38 35))
   \<and> count_list (snd (challenge_status (DEFAULTS\<lparr>challenge_on := True\<rparr>) 40 40 38 35)) Balloons \<le> 1
   \<and> Balloons \<notin> set (snd (challenge_status
         (fst (challenge_status (DEFAULTS\<lparr>challenge_on := True\<rparr>) 40 40 38 35)) 40 40 38 35))
   \<and> challenge_on (DEFAULTS\<lparr>co2_ppm := 280, rainfall_change_pct := 50, green_infra_pct := 100,
         urbanization_pct := 0, challenge_on := True, difficulty_choice := Easy\<rparr>)
   \<and> DIFFICULTY_TARGETS (difficulty_choice (DEFAULTS\<lparr>co2_ppm := 280, rainfall_change_pct := 50,
         green_infra_pct := 100, urbanization_pct := 0, challenge_on := True,
         difficulty_choice := Easy\<rparr>)) = (55, 55)
   \<and> (\<exists>s' p. script No_button (DEFAULTS\<lparr>co2_ppm := 280, rainfall_change_pct := 50,
                  green_infra_pct := 100, urbanization_pct := 0, challenge_on := True,
                  difficulty_choice := Easy\<rparr>) = Done s' p
          \<and> table p = simulate 80 280 50 100 0
          \<and> flood_risk (last (table p)) \<le> 55 \<and> drought_risk (last (table p)) \<le> 55
          \<and> challenge_won s' \<and> Balloons \<in> set (challenge_box p)
          \<and> (\<exists>p'. script No_button s' = Done s' p' \<and> Balloons \<notin> set (challenge_box p')))"
proof -
  let ?m = "DEFAULTS\<lparr>challenge_on := True\<rparr>"
  have on: "challenge_on ?m" by simp
  have tg: "DIFFICULTY_TARGETS (difficulty_choice ?m) = (40, 40)" by (simp add: DEFAULTS_def)
  have nw: "\<not> challenge_won ?m" by (simp add: DEFAULTS_def)
  note edge = challenge_win_edge [OF on tg, of 38 35]
  from edge have "fst (challenge_status ?m 40 40 38 35) = ?m\<lparr>challenge_won := True\<rparr>"
    by simp
  then have won: "challenge_won (fst (challenge_status ?m 40 40 38 35))" by simp
  from edge nw have ev: "Balloons \<in> set (snd (challenge_status ?m 40 40 38 35))" by simp
  from edge have once: "count_list (snd (challenge_status ?m 40 40 38 35)) Balloons \<le> 1"
    by blast
  from edge have again: "Balloons \<notin> set (snd (challenge_status
         (fst (challenge_status ?m 40 40 38 35)) 40 40 38 35))"
    by blast
  let ?s = "DEFAULTS\<lparr>co2_ppm := 280, rainfall_change_pct := 50, green_infra_pct := 100,
         urbanization_pct := 0, challenge_on := True, difficulty_choice := Easy\<rparr>"
  have on2: "challenge_on ?s" by simp
  have tg2: "DIFFICULTY_TARGETS (difficulty_choice ?s) = (55, 55)" by simp
  have nw2: "\<not> challenge_won ?s" by (simp add: DEFAULTS_def)
  have "0 \<le> years ?s" and "\<not> compare_on ?s" by (simp_all add: DEFAULTS_def)
  then obtain s' p where run1: "script No_button ?s = Done s' p"
    using script_No_button [of ?s] by blast
  note e1 = challenge_win_edge [OF on2 tg2, of _ _ No_button s' p]
  have mb: "mode_branch ?s = ?s" by (simp add: mode_branch_def DEFAULTS_def)
  from e1 run1 mb have tbl: "table p = simulate 80 280 50 100 0"
    by (simp add: run_simulation_def DEFAULTS_def)
  have "simulate 80 280 50 100 0 \<noteq> []"
    using length_simulate [of 80 280 50 100 0] by auto
  then have "last (simulate 80 280 50 100 0)
      = simulate 80 280 50 100 0 ! (length (simulate 80 280 50 100 0) - 1)"
    by (rule last_conv_nth)
  then have lst: "last (table p) = simulate 80 280 50 100 0 ! 80"
    by (simp add: tbl length_simulate)
  have "flood_risk (simulate 80 280 50 100 0 ! 80) = 100 * (1 - exp (- 0.3645))"
    by (simp add: nth_simulate Let_def)
  also have "\<dots> \<le> 100 * 0.3645" by (rule saturating_transform_linear)
  finally have fl: "flood_risk (last (table p)) \<le> 55" by (simp add: lst)
  have "drought_risk (simulate 80 280 50 100 0 ! 80) = 100 * (1 - exp (- (34 / 75)))"
    by (simp add: nth_simulate Let_def)
  also have "\<dots> \<le> 100 * (34 / 75)" by (rule saturating_transform_linear)
  finally have dr: "drought_risk (last (table p)) \<le> 55" by (simp add: lst)
  from e1 run1 fl dr have s': "s' = ?s\<lparr>challenge_won := True\<rparr>" by (simp add: mb)
  then have won2: "challenge_won s'" by simp
  from e1 run1 fl dr nw2 have ev2: "Balloons \<in> set (challenge_box p)" by simp
  have "0 \<le> years s'" and "\<not> compare_on s'" by (simp_all add: s' DEFAULTS_def)
  then obtain s'' p' where run2: "script No_button s' = Done s'' p'"
    using script_No_button [of s'] by blast
  from challenge_win_edge [OF on2 tg2, of _ _ No_button s' p No_button s'' p'] run1 run2
  have "s'' = s'" and "Balloons \<notin> set (challenge_box p')" by simp_all
  with run2 have re: "\<exists>p'. script No_button s' = Done s' p' \<and> Balloons \<notin> set (challenge_box p')"
    by blast
  from run1 tbl fl dr won2 ev2 re
  have "\<exists>s' p. script No_button ?s = Done s' p
          \<and> table p = simulate 80 280 50 100 0
          \<and> flood_risk (last (table p)) \<le> 55 \<and> drought_risk (last (table p)) \<le> 55
          \<and> challenge_won s' \<and> Balloons \<in> set (challenge_box p)
          \<and> (\<exists>p'. script No_button s' = Done s' p' \<and> Balloons \<notin> set (challenge_box p'))"
    by blast
  with on tg nw won ev once again on2 tg2 show ?thesis by blast
qed



text \<open>
  Claim C7. From any session state, Reset to Default produces the defaults: horizon 80,
  CO2 450, rainfall 10, green 20, urbanization 40, difficulty Medium, challenge off,
  comparison off, won flag false, both snapshot slots empty (and mode Standard); the
  click ends in a rerun from exactly that state, and that rerun reaches its end with
  the defaults still in place.
\<close>

theorem reset_restores_defaults:
  "reset_to_default s = DEFAULTS
   \<and> script Btn_Reset s = Rerun DEFAULTS
   \<and> mode DEFAULTS = Standard
   \<and> years DEFAULTS = 80
   \<and> co2_ppm DEFAULTS = 450
   \<and> rainfall_change_pct DEFAULTS = 10
   \<and> green_infra_pct DEFAULTS = 20
   \<and> urbanization_pct DEFAULTS = 40
   \<and> difficulty_choice DEFAULTS = Medium
   \<and> \<not> challenge_on DEFAULTS
   \<and> \<not> compare_on DEFAULTS
   \<and> \<not> challenge_won DEFAULTS
   \<and> scenario_A DEFAULTS = None
   \<and> scenario_B DEFAULTS = None
   \<and> (\<exists>p. script No_button DEFAULTS = Done DEFAULTS p)"
proof -
  have r: "reset_to_default s = DEFAULTS"
    by (simp add: reset_to_default_def DEFAULTS_def)
  then have "script Btn_Reset s = Rerun DEFAULTS"
    by (simp add: script_def)
  with r script_No_button_DEFAULTS show ?thesis by (simp add: DEFAULTS_def)
qed

text \<open>
  Claim C8. In Kids mode the mode branch replaces the stored urbanization by 45 and
  leaves every other field as it was; the simulation of the run is computed from the
  stored horizon, CO2, rainfall and green values and urbanization 45, and a run that
  reaches its end shows that table and leaves the parameters of the state equal to the
  stored ones with urbanization 45.
\<close>

theorem kids_mode_forces_urbanization:
  assumes "mode s = Kids"
  shows "mode_branch s = s\<lparr>urbanization_pct := 45\<rparr>
       \<and> run_simulation (mode_branch s)
           = simulate (years s) (co2_ppm s) (rainfall_change_pct s) (green_infra_pct s) 45
       \<and> (script b s = Done s' p \<longrightarrow>
            table p = simulate (years s) (co2_ppm s) (rainfall_change_pct s) (green_infra_pct s) 45
            \<and> parameters.truncate s' = parameters.truncate (s\<lparr>urbanization_pct := 45\<rparr>))"
proof -
  from assms have mb: "mode_branch s = s\<lparr>urbanization_pct := 45\<rparr>"
    by (simp add: mode_branch_def)
  then have rs: "run_simulation (mode_branch s)
           = simulate (years s) (co2_ppm s) (rainfall_change_pct s) (green_infra_pct s) 45"
    by (simp add: run_simulation_def)
  have dn: "table p = simulate (years s) (co2_ppm s) (rainfall_change_pct s) (green_infra_pct s) 45
            \<and> parameters.truncate s' = parameters.truncate (s\<lparr>urbanization_pct := 45\<rparr>)"
    if "script b s = Done s' p"
  proof -
    from that have "table p = run_simulation (mode_branch s)" by (rule script_Done(1))
    with rs have 1: "table p
        = simulate (years s) (co2_ppm s) (rainfall_change_pct s) (green_infra_pct s) 45"
      by simp
    from script_Done(2) [OF that] have "parameters.truncate s' = parameters.truncate (mode_branch s)"
      by (simp add: challenge_status_frame)
    with mb have 2: "parameters.truncate s' = parameters.truncate (s\<lparr>urbanization_pct := 45\<rparr>)"
      by simp
    from 1 2 show ?thesis by blast
  qed
  from mb rs dn show ?thesis by blast
qed

theorem kids_mode_forces_urbanization_witness:
  "mode (DEFAULTS\<lparr>mode := Kids\<rparr>) = Kids
   \<and> urbanization_pct (DEFAULTS\<lparr>mode := Kids\<rparr>) = 40
   \<and> mode_branch (DEFAULTS\<lparr>mode := Kids\<rparr>) = DEFAULTS\<lparr>mode := Kids, urbanization_pct := 45\<rparr>
   \<and> (\<exists>p. script No_button (DEFAULTS\<lparr>mode := Kids\<rparr>)
              = Done (DEFAULTS\<lparr>mode := Kids, urbanization_pct := 45\<rparr>) p
          \<and> table p = simulate 80 450 10 20 45)"
proof -
  let ?s = "DEFAULTS\<lparr>mode := Kids\<rparr>"
  have k: "mode ?s = Kids" by simp
  have u: "urbanization_pct ?s = 40" by (simp add: DEFAULTS_def)
  note kids = kids_mode_forces_urbanization [OF k]
  from kids have mb: "mode_branch ?s = DEFAULTS\<lparr>mode := Kids, urbanization_pct := 45\<rparr>"
    by simp
  have "0 \<le> years ?s" and "\<not> compare_on ?s" by (simp_all add: DEFAULTS_def)
  then obtain p where
    p: "script No_button ?s
          = Done (fst (challenge_status (mode_branch ?s)
                        (fst (DIFFICULTY_TARGETS (difficulty_choice ?s)))
                        (snd (DIFFICULTY_TARGETS (difficulty_choice ?s)))
                        (flood_risk (last (run_simulation (mode_branch ?s))))
                        (drought_risk (last (run_simulation (mode_branch ?s)))))) p"
    using script_No_button [of ?s] by blast
  have "\<not> challenge_on (mode_branch ?s)" by (simp add: mode_branch_frame DEFAULTS_def)
  then have "fst (challenge_status (mode_branch ?s) tf td f d) = mode_branch ?s" for tf td f d
    by (simp add: challenge_status_def)
  with p mb have d: "script No_button ?s = Done (DEFAULTS\<lparr>mode := Kids, urbanization_pct := 45\<rparr>) p"
    by simp
  from kids [of No_button "DEFAULTS\<lparr>mode := Kids, urbanization_pct := 45\<rparr>" p] d
  have "table p = simulate 80 450 10 20 45" by (simp add: DEFAULTS_def)
  with k u mb d show ?thesis by blast
qed

text \<open>
  Claim C9. Each quick scenario installs its bundle (Business 80, 650, 10, 10, 65; Green
  80, 380, 5, 70, 30; Urban 80, 520, 15, 15, 85), sets the mode to Standard and the won
  flag to false, and leaves the challenge toggle, the difficulty, the comparison toggle
  and both snapshot slots unchanged; the click ends in a rerun from that state.
\<close>

theorem presets_frame:
  "(mode (preset_Business s) = Standard \<and> years (preset_Business s) = 80
      \<and> co2_ppm (preset_Business s) = 650 \<and> rainfall_change_pct (preset_Business s) = 10
      \<and> green_infra_pct (preset_Business s) = 10 \<and> urbanization_pct (preset_Business s) = 65
      \<and> \<not> challenge_won (preset_Business s)
      \<and> challenge_on (preset_Business s) = challenge_on s
      \<and> difficulty_choice (preset_Business s) = difficulty_choice s
      \<and> compare_on (preset_Business s) = compare_on s
      \<and> scenario_A (preset_Business s) = scenario_A s
      \<and> scenario_B (preset_Business s) = scenario_B s
      \<and> script Btn_Business s = Rerun (preset_Business s))
   \<and> (mode (preset_Green s) = Standard \<and> years (preset_Green s) = 80
      \<and> co2_ppm (preset_Green s) = 380 \<and> rainfall_change_pct (preset_Green s) = 5
      \<and> green_infra_pct (preset_Green s) = 70 \<and> urbanization_pct (preset_Green s) = 30
      \<and> \<not> challenge_won (preset_Green s)
      \<and> challenge_on (preset_Green s) = challenge_on s
      \<and> difficulty_choice (preset_Green s) = difficulty_choice s
      \<and> compare_on (preset_Green s) = compare_on s
      \<and> scenario_A (preset_Green s) = scenario_A s
      \<and> scenario_B (preset_Green s) = scenario_B s
      \<and> script Btn_Green s = Rerun (preset_Green s))
   \<and> (mode (preset_Urban s) = Standard \<and> years (preset_Urban s) = 80
      \<and> co2_ppm (preset_Urban s) = 520 \<and> rainfall_change_pct (preset_Urban s) = 15
      \<and> green_infra_pct (preset_Urban s) = 15 \<and> urbanization_pct (preset_Urban s) = 85
      \<and> \<not> challenge_won (preset_Urban s)
      \<and> challenge_on (preset_Urban s) = challenge_on s
      \<and> difficulty_choice (preset_Urban s) = difficulty_choice s
      \<and> compare_on (preset_Urban s) = compare_on s
      \<and> scenario_A (preset_Urban s) = scenario_A s
      \<and> scenario_B (preset_Urban s) = scenario_B s
      \<and> script Btn_Urban s = Rerun (preset_Urban s))"
proof -
  have b: "script Btn_Business s = Rerun (preset_Business s)" by (simp add: script_def)
  have g: "script Btn_Green s = Rerun (preset_Green s)" by (simp add: script_def)
  have u: "script Btn_Urban s = Rerun (preset_Urban s)" by (simp add: script_def)
  from b g u show ?thesis
    by (simp add: preset_Business_def preset_Green_def preset_Urban_def)
qed

text \<open>
  Claim C10. With the challenge disabled, the challenge block changes nothing and shows
  nothing, and a run that reaches its end leaves the won flag as it was, with an empty
  challenge box. So the flag can stay true while the final flood risk is above the
  target: the example that follows is such a run.
\<close>

theorem challenge_off_frame:
  assumes "\<not> challenge_on s"
  shows "challenge_status s tf td f d = (s, [])
       \<and> (script b s = Done s' p \<longrightarrow> challenge_won s' = challenge_won s \<and> challenge_box p = [])"
proof -
  from assms have blk: "challenge_status s tf td f d = (s, [])" for tf td f d
    by (simp add: challenge_status_def)
  have "challenge_won s' = challenge_won s \<and> challenge_box p = []" if "script b s = Done s' p"
  proof -
    from assms have off: "\<not> challenge_on (mode_branch s)" by (simp add: mode_branch_frame)
    from script_Done(2) [OF that] off have "s' = mode_branch s"
      by (simp add: challenge_status_def)
    moreover from script_Done(3) [OF that] off have "challenge_box p = []"
      by (simp add: challenge_status_def)
    ultimately show ?thesis by (simp add: mode_branch_frame)
  qed
  with blk show ?thesis by blast
qed

theorem challenge_off_frame_witness:
  "\<not> challenge_on (DEFAULTS\<lparr>co2_ppm := 900, rainfall_change_pct := 50, green_infra_pct := 0,
        urbanization_pct := 100, challenge_won := True\<rparr>)
   \<and> DIFFICULTY_TARGETS (difficulty_choice (DEFAULTS\<lparr>co2_ppm := 900, rainfall_change_pct := 50,
        green_infra_pct := 0, urbanization_pct := 100, challenge_won := True\<rparr>)) = (40, 40)
   \<and> (\<exists>s' p. script No_button (DEFAULTS\<lparr>co2_ppm := 900, rainfall_change_pct := 50,
                  green_infra_pct := 0, urbanization_pct := 100, challenge_won := True\<rparr>) = Done s' p
          \<and> 40 < flood_val p \<and> challenge_won s' \<and> challenge_box p = [])"
proof -
  let ?s = "DEFAULTS\<lparr>co2_ppm := 900, rainfall_change_pct := 50, green_infra_pct := 0,
        urbanization_pct := 100, challenge_won := True\<rparr>"
  have off: "\<not> challenge_on ?s" by (simp add: DEFAULTS_def)
  have tg: "DIFFICULTY_TARGETS (difficulty_choice ?s) = (40, 40)" by (simp add: DEFAULTS_def)
  have mb: "mode_branch ?s = ?s" by (simp add: mode_branch_def DEFAULTS_def)
  have "0 \<le> years ?s" and "\<not> compare_on ?s" by (simp_all add: DEFAULTS_def)
  then obtain s' p where
    p: "script No_button ?s = Done s' p"
    and fv: "flood_val p = flood_risk (last (run_simulation (mode_branch ?s)))"
    using script_No_button [of ?s] by blast
  from challenge_off_frame [OF off, of _ _ _ _ No_button s' p] p
  have won: "challenge_won s'" and box: "challenge_box p = []" by simp_all
  have rs: "run_simulation ?s = simulate 80 900 50 0 100"
    by (simp add: run_simulation_def DEFAULTS_def)
  have "simulate 80 900 50 0 100 \<noteq> []"
    using length_simulate [of 80 900 50 0 100] by auto
  then have "last (simulate 80 900 50 0 100)
      = simulate 80 900 50 0 100 ! (length (simulate 80 900 50 0 100) - 1)"
    by (rule last_conv_nth)
  then have lst: "last (simulate 80 900 50 0 100) = simulate 80 900 50 0 100 ! 80"
    by (simp add: length_simulate)
  have "in_domain 80 900 50 0 100" by (simp add: in_domain_def)
  then have "100 * (1 - 1 / (1 + 0.9 * ((1 + real_of_int 50 / 100)
                * (0.6 + 1.2 * (real_of_int 100 / 100)) * (1 - 0.55 * (real_of_int 0 / 100)))))
         \<le> flood_risk (simulate 80 900 50 0 100 ! 80)"
    by (rule flood_risk_lower) simp
  then have "40 < flood_risk (simulate 80 900 50 0 100 ! 80)" by simp
  with fv mb rs lst have "40 < flood_val p" by simp
  with off tg p won box show ?thesis by blast
qed

end
